theory Spec2Isabelle
  imports Main
begin

section \<open>Python strings\<close>

text \<open>
  A Python \<open>str\<close> is a sequence of Unicode code points; it is modelled as a list of
  natural numbers. The literals of the source are ASCII (two emoji apart, which are
  written as their code points), so a literal is the list of the codes of its characters.
\<close>

type_synonym pystr = "nat list"

abbreviation str :: "string \<Rightarrow> pystr" where
  "str s \<equiv> map of_char s"

section \<open>The subset of \<open>re\<close> used by the URL patterns\<close>

text \<open>
  The three patterns of \<open>validate_youtube_url\<close> are built from literal text, optional
  non-capturing groups \<open>(?:...)?\<close>, the optional character \<open>s?\<close> and the class
  repetition \<open>[\w-]+\<close>. \<open>rx_ends r s\<close> lists, in the order a backtracking matcher tries
  them (greedy first), what is left of \<open>s\<close> after each way of matching \<open>r\<close> at its start.
\<close>

datatype regex =
    Lit pystr
  | Opt regex
  | Cat regex regex
  | Plus "nat \<Rightarrow> bool"

fun rx_ends :: "regex \<Rightarrow> pystr \<Rightarrow> pystr list" where
  "rx_ends (Lit l) s = (if take (length l) s = l then [drop (length l) s] else [])"
| "rx_ends (Opt r) s = rx_ends r s @ [s]"
| "rx_ends (Cat r1 r2) s = concat (map (rx_ends r2) (rx_ends r1 s))"
| "rx_ends (Plus P) s = rev (map (\<lambda>k. drop (Suc k) s) [0..<length (takeWhile P s)])"

text \<open>\<open>re.match(pattern, string)\<close>: a match anchored at the start of the string, which
  need not reach its end. The result is a match object or \<open>None\<close>; the caller only tests it.\<close>

definition re_match :: "regex \<Rightarrow> pystr \<Rightarrow> bool" where
  "re_match r s = (rx_ends r s \<noteq> [])"

text \<open>
  In a \<open>str\<close> pattern \<open>\w\<close> is Unicode-aware: a character for which \<open>str.isalnum\<close> holds,
  or the underscore. The Unicode database is not part of the repository; the predicate
  \<open>alnum\<close> stands for it.
\<close>

definition word_char :: "(nat \<Rightarrow> bool) \<Rightarrow> nat \<Rightarrow> bool" where
  "word_char alnum c = (alnum c \<or> c = of_char CHR ''_'')"

definition id_class :: "(nat \<Rightarrow> bool) \<Rightarrow> nat \<Rightarrow> bool" where
  "id_class alnum c = (word_char alnum c \<or> c = of_char CHR ''-'')"

definition ascii_alnum :: "nat \<Rightarrow> bool" where
  "ascii_alnum c = ((48 \<le> c \<and> c \<le> 57) \<or> (65 \<le> c \<and> c \<le> 90) \<or> (97 \<le> c \<and> c \<le> 122))"

section \<open>\<open>validate_youtube_url\<close>\<close>

text \<open>The common start of the three patterns: \<open>(?:https?://)?\<close> and \<open>(?:www\.)?\<close>.\<close>

definition rx_scheme :: regex where
  "rx_scheme = Opt (Cat (Lit (str ''http'')) (Cat (Opt (Lit (str ''s''))) (Lit (str ''://''))))"

definition rx_www :: regex where
  "rx_www = Opt (Lit (str ''www.''))"

definition rx_prefix :: regex where
  "rx_prefix = Cat rx_scheme rx_www"

definition youtube_patterns :: "(nat \<Rightarrow> bool) \<Rightarrow> regex list" where
  "youtube_patterns alnum =
     [Cat rx_prefix (Cat (Lit (str ''youtube.com/watch?v='')) (Plus (id_class alnum))),
      Cat rx_prefix (Cat (Lit (str ''youtu.be/'')) (Plus (id_class alnum))),
      Cat rx_prefix (Cat (Lit (str ''youtube.com/embed/'')) (Plus (id_class alnum)))]"

fun any_match :: "regex list \<Rightarrow> pystr \<Rightarrow> bool" where
  "any_match [] url = False"
| "any_match (pattern # rest) url = (if re_match pattern url then True else any_match rest url)"

definition validate_youtube_url :: "(nat \<Rightarrow> bool) \<Rightarrow> pystr \<Rightarrow> bool" where
  "validate_youtube_url alnum url = any_match (youtube_patterns alnum) url"


text \<open>
  The recognized URL shapes in the words of the specification: an optional scheme, an
  optional \<open>www.\<close>, the text of the watch-page, short-link or embed form, and a
  non-empty identifier; the shape is anchored at the start and anything may follow.
\<close>

definition url_schemes :: "pystr set" where
  "url_schemes = {[], str ''http://'', str ''https://''}"

definition www_prefixes :: "pystr set" where
  "www_prefixes = {[], str ''www.''}"

definition id_run :: "(nat \<Rightarrow> bool) \<Rightarrow> pystr \<Rightarrow> bool" where
  "id_run alnum ident =
     (ident \<noteq> [] \<and> (\<forall>c\<in>set ident. alnum c \<or> c = of_char CHR ''_'' \<or> c = of_char CHR ''-''))"

definition starts_with_shape :: "(nat \<Rightarrow> bool) \<Rightarrow> pystr \<Rightarrow> pystr \<Rightarrow> bool" where
  "starts_with_shape alnum body url =
     (\<exists>scheme\<in>url_schemes. \<exists>www\<in>www_prefixes. \<exists>ident rest.
        id_run alnum ident \<and> url = scheme @ www @ body @ ident @ rest)"

definition recognized_shape :: "(nat \<Rightarrow> bool) \<Rightarrow> pystr \<Rightarrow> bool" where
  "recognized_shape alnum url =
     (starts_with_shape alnum (str ''youtube.com/watch?v='') url
      \<or> starts_with_shape alnum (str ''youtu.be/'') url
      \<or> starts_with_shape alnum (str ''youtube.com/embed/'') url)"

section \<open>Values and exceptions\<close>

text \<open>
  The values \<open>json.loads\<close> can return. A float is a finite binary fraction (mantissa and
  exponent), an infinity or a NaN; a \<open>dict\<close> is an association list with string keys.
\<close>

datatype pyfloat = Finite int int | Infinite bool | NaN

datatype pyval =
    PNone
  | PBool bool
  | PInt int
  | PFloat pyfloat
  | PStr pystr
  | PList "pyval list"
  | PDict "(pystr \<times> pyval) list"

text \<open>The truth value of an object, as \<open>if info:\<close> tests it.\<close>

fun truthy :: "pyval \<Rightarrow> bool" where
  "truthy PNone = False"
| "truthy (PBool b) = b"
| "truthy (PInt n) = (n \<noteq> 0)"
| "truthy (PFloat (Finite m e)) = (m \<noteq> 0)"
| "truthy (PFloat (Infinite neg)) = True"
| "truthy (PFloat NaN) = True"
| "truthy (PStr s) = (s \<noteq> [])"
| "truthy (PList xs) = (xs \<noteq> [])"
| "truthy (PDict kvs) = (kvs \<noteq> [])"

text \<open>
  The exceptions that occur. \<open>CalledProcessError\<close> carries the return code, the command
  and the captured output and error text (\<open>None\<close> when they were not captured).
  \<open>KeyboardInterrupt\<close> and \<open>SystemExit\<close> derive from \<open>BaseException\<close> only, so a
  handler for \<open>Exception\<close> lets them pass.
\<close>

datatype pyexn =
    CalledProcessError int "pystr list" pyval pyval
  | FileNotFoundError
  | FileExistsError
  | OSError
  | JSONDecodeError
  | ValueError
  | TypeError
  | AttributeError
  | OtherException pystr
  | KeyboardInterrupt
  | SystemExit int

fun is_CalledProcessError :: "pyexn \<Rightarrow> bool" where
  "is_CalledProcessError (CalledProcessError rc cmd out err) = True"
| "is_CalledProcessError e = False"

fun is_Exception :: "pyexn \<Rightarrow> bool" where
  "is_Exception KeyboardInterrupt = False"
| "is_Exception (SystemExit n) = False"
| "is_Exception e = True"

section \<open>Effects: printed lines, subprocesses, the file system\<close>

text \<open>
  A printed line is kept as the pieces of its f-string: literal text, \<open>str(v)\<close> of a
  value, \<open>format(v, ',')\<close> of a number, \<open>s.strip()\<close> of a text and \<open>str(e)\<close> of an
  exception. The log holds, in the order they happen, the lines printed, the commands
  handed to \<open>subprocess.run\<close> and the calls of \<open>os.makedirs\<close>.
\<close>

datatype piece = T pystr | V pyval | Grouped pyval | Stripped pystr | Exc pyexn

datatype event = Print "piece list" | Spawn "pystr list" | Makedirs pystr

datatype node = Dir | File

type_synonym fs = "pystr \<Rightarrow> node option"

record pstate =
  log :: "event list"
  files :: fs

text \<open>
  What the program cannot see into: the outcome of running a command (its return code
  with the text of its standard output and standard error, or the exception raised when
  it cannot be run or the user interrupts it) together with what it does to the file
  system, the result of \<open>json.loads\<close>, the reasons for which the operating system refuses
  to create a directory, and the Unicode table behind \<open>\w\<close>.
\<close>

datatype proc_result = Exited int pystr pystr | Raised pyexn

record env =
  exec :: "pystr list \<Rightarrow> fs \<Rightarrow> proc_result \<times> fs"
  json_loads :: "pystr \<Rightarrow> pyexn + pyval"
  mkdir_refused :: "pystr \<Rightarrow> fs \<Rightarrow> pyexn option"
  isalnum :: "nat \<Rightarrow> bool"

definition say :: "piece list \<Rightarrow> pstate \<Rightarrow> pstate" where
  "say line st = st\<lparr>log := log st @ [Print line]\<rparr>"

text \<open>
  \<open>os.makedirs(name, exist_ok=...)\<close> after its documentation: the leaf directory and the
  intermediate ones that are missing are created; a target that exists already is an
  error (\<open>FileExistsError\<close>) unless \<open>exist_ok\<close> is set and the target is a directory.
  Paths are looked up as they are spelled.
\<close>

definition parents :: "pystr \<Rightarrow> pystr list" where
  "parents name = map (\<lambda>i. take i name) (filter (\<lambda>i. name ! i = of_char CHR ''/'') [1..<length name])"

definition add_dirs :: "pystr list \<Rightarrow> fs \<Rightarrow> fs" where
  "add_dirs ps fs = (\<lambda>p. if p \<in> set ps \<and> fs p = None then Some Dir else fs p)"

definition os_makedirs :: "env \<Rightarrow> pystr \<Rightarrow> bool \<Rightarrow> fs \<Rightarrow> pyexn + fs" where
  "os_makedirs E name exist_ok fs =
     (case fs name of
        Some Dir \<Rightarrow> if exist_ok then Inr fs else Inl FileExistsError
      | Some File \<Rightarrow> Inl FileExistsError
      | None \<Rightarrow>
          (case mkdir_refused E name fs of
             Some e \<Rightarrow> Inl e
           | None \<Rightarrow> Inr (add_dirs (parents name @ [name]) fs)))"

text \<open>
  \<open>subprocess.run(cmd, check=True)\<close>, with \<open>capture_output=True, text=True\<close> when
  \<open>capture\<close> is set: a return code other than zero raises \<open>CalledProcessError\<close>.
\<close>

record completed =
  returncode :: int
  stdout :: pyval
  stderr :: pyval

definition subprocess_run :: "env \<Rightarrow> pystr list \<Rightarrow> bool \<Rightarrow> pstate \<Rightarrow> (pyexn + completed) \<times> pstate" where
  "subprocess_run E cmd capture st =
     (let (res, fs') = exec E cmd (files st);
          st' = st\<lparr>log := log st @ [Spawn cmd], files := fs'\<rparr>;
          cap = (\<lambda>text. if capture then PStr text else PNone)
      in case res of
           Raised e \<Rightarrow> (Inl e, st')
         | Exited rc out err \<Rightarrow>
             if rc \<noteq> 0 then (Inl (CalledProcessError rc cmd (cap out) (cap err)), st')
             else (Inr \<lparr>returncode = rc, stdout = cap out, stderr = cap err\<rparr>, st'))"

definition loads :: "env \<Rightarrow> pyval \<Rightarrow> pyexn + pyval" where
  "loads E v = (case v of PStr s \<Rightarrow> json_loads E s | _ \<Rightarrow> Inl TypeError)"


section \<open>The program\<close>

subsection \<open>\<open>check_yt_dlp_installed\<close>\<close>

definition version_cmd :: "pystr list" where
  "version_cmd = [str ''yt-dlp'', str ''--version'']"

definition check_handler :: "pyexn \<Rightarrow> pstate \<Rightarrow> (pyexn + bool) \<times> pstate" where
  "check_handler e st =
     (if is_CalledProcessError e \<or> e = FileNotFoundError then
        (Inr False,
         say [T (str ''   Install with: pip install yt-dlp'')]
           (say [T (0x274C # str '' yt-dlp is not installed'')] st))
      else (Inl e, st))"

definition check_yt_dlp_installed :: "env \<Rightarrow> pstate \<Rightarrow> (pyexn + bool) \<times> pstate" where
  "check_yt_dlp_installed E st =
     (case subprocess_run E version_cmd True st of
        (Inl e, st1) \<Rightarrow> check_handler e st1
      | (Inr result, st1) \<Rightarrow>
          (case stdout result of
             PStr text \<Rightarrow>
               (Inr True, say [T (0x2705 # str '' yt-dlp version: ''), Stripped text] st1)
           | _ \<Rightarrow> check_handler AttributeError st1))"

subsection \<open>\<open>get_video_info\<close>\<close>

text \<open>The two \<open>except\<close> clauses; the result \<open>None\<close> is \<open>PNone\<close>.\<close>

fun info_handler :: "pyexn \<Rightarrow> pstate \<Rightarrow> (pyexn + pyval) \<times> pstate" where
  "info_handler (CalledProcessError rc cmd out err) st =
     (Inr PNone, say [T (str ''[!] Error getting video info: ''), V err] st)"
| "info_handler JSONDecodeError st =
     (Inr PNone, say [T (str ''[!] Error parsing video information'')] st)"
| "info_handler e st = (Inl e, st)"

definition info_cmd :: "pystr \<Rightarrow> pystr list" where
  "info_cmd url = [str ''yt-dlp'', str ''--dump-json'', str ''--no-playlist'', url]"

definition get_video_info :: "env \<Rightarrow> pystr \<Rightarrow> pstate \<Rightarrow> (pyexn + pyval) \<times> pstate" where
  "get_video_info E url st =
     (let cmd = info_cmd url
      in case subprocess_run E cmd True st of
           (Inl e, st1) \<Rightarrow> info_handler e st1
         | (Inr result, st1) \<Rightarrow>
             (case loads E (stdout result) of
                Inl e \<Rightarrow> info_handler e st1
              | Inr v \<Rightarrow> (Inr v, st1)))"

subsection \<open>\<open>list_formats\<close>\<close>

fun formats_handler :: "pyexn \<Rightarrow> pstate \<Rightarrow> (pyexn + bool) \<times> pstate" where
  "formats_handler (CalledProcessError rc cmd out err) st =
     (Inr False, say [T (str ''[!] Error listing formats: ''), V err] st)"
| "formats_handler e st = (Inl e, st)"

definition formats_cmd :: "pystr \<Rightarrow> pystr list" where
  "formats_cmd url = [str ''yt-dlp'', str ''--list-formats'', str ''--no-playlist'', url]"

definition list_formats :: "env \<Rightarrow> pystr \<Rightarrow> pstate \<Rightarrow> (pyexn + bool) \<times> pstate" where
  "list_formats E url st =
     (let st0 = say [T (str ''[*] Getting available formats for: ''), T url] st;
          cmd = formats_cmd url
      in case subprocess_run E cmd True st0 of
           (Inl e, st1) \<Rightarrow> formats_handler e st1
         | (Inr result, st1) \<Rightarrow> (Inr True, say [V (stdout result)] st1))"

subsection \<open>\<open>download_video\<close>\<close>

text \<open>The argument list \<open>cmd\<close> as the function builds it.\<close>

definition download_cmd :: "pystr \<Rightarrow> pystr \<Rightarrow> pystr \<Rightarrow> bool \<Rightarrow> pystr list" where
  "download_cmd url output_path format_spec audio_only =
     [str ''yt-dlp'',
      str ''--output'', output_path @ str ''/%(title)s.%(ext)s'',
      str ''--no-playlist'',
      str ''--progress'']
     @ (if audio_only then
          [str ''--extract-audio'', str ''--audio-format'', str ''mp3'']
          @ [str ''--format'', str ''bestaudio[ext=m4a]/bestaudio[ext=mp3]/bestaudio'']
        else [str ''--format'', format_spec])
     @ [url]"

fun join :: "pystr \<Rightarrow> pystr list \<Rightarrow> pystr" where
  "join sep [] = []"
| "join sep [x] = x"
| "join sep (x # y # ys) = x @ sep @ join sep (y # ys)"

definition download_handler :: "pyexn \<Rightarrow> pstate \<Rightarrow> (pyexn + bool) \<times> pstate" where
  "download_handler e st =
     (if is_CalledProcessError e then
        (Inr False, say [T (str ''[!] Download error: ''), Exc e] st)
      else if is_Exception e then
        (Inr False, say [T (str ''[!] Unexpected error: ''), Exc e] st)
      else (Inl e, st))"

definition download_video ::
    "env \<Rightarrow> pystr \<Rightarrow> pystr \<Rightarrow> pystr \<Rightarrow> bool \<Rightarrow> pstate \<Rightarrow> (pyexn + bool) \<times> pstate" where
  "download_video E url output_path format_spec audio_only st =
     (let st0 = st\<lparr>log := log st @ [Makedirs output_path]\<rparr>
      in case os_makedirs E output_path True (files st0) of
           Inl e \<Rightarrow> download_handler e st0
         | Inr fs1 \<Rightarrow>
             (let st1 = st0\<lparr>files := fs1\<rparr>;
                  cmd = download_cmd url output_path format_spec audio_only;
                  st2 = say [T (str ''[*] Starting download with command: ''), T (join (str '' '') cmd)] st1;
                  st3 = say [T (str ''[*] Output directory: ''), T output_path] st2
              in case subprocess_run E cmd False st3 of
                   (Inl e, st4) \<Rightarrow> download_handler e st4
                 | (Inr result, st4) \<Rightarrow>
                     if returncode result = 0 then
                       (Inr True, say [T (str ''[+] Download completed successfully!'')] st4)
                     else
                       (Inr False,
                        say [T (str ''[!] Download failed with return code: ''),
                             V (PInt (returncode result))] st4)))"

subsection \<open>\<open>main\<close>\<close>

record args =
  args_url :: pystr
  args_output :: pystr
  args_format :: pystr
  args_audio :: bool
  args_list_formats :: bool
  args_info :: bool

text \<open>\<open>info.get(key, 'Unknown')\<close>: only a \<open>dict\<close> has the method.\<close>

definition info_get :: "pyval \<Rightarrow> pystr \<Rightarrow> pyexn + pyval" where
  "info_get info key =
     (case info of
        PDict kvs \<Rightarrow> Inr (case map_of kvs key of Some v \<Rightarrow> v | None \<Rightarrow> PStr (str ''Unknown''))
      | _ \<Rightarrow> Inl AttributeError)"

text \<open>
  The format specification \<open>:,\<close> of the view-count line: numbers are grouped by
  thousands, a \<open>str\<close> raises \<open>ValueError\<close>, any other object \<open>TypeError\<close>.
\<close>

fun format_comma :: "pyval \<Rightarrow> pyexn + piece" where
  "format_comma (PInt n) = Inr (Grouped (PInt n))"
| "format_comma (PBool b) = Inr (Grouped (PBool b))"
| "format_comma (PFloat x) = Inr (Grouped (PFloat x))"
| "format_comma (PStr s) = Inl ValueError"
| "format_comma v = Inl TypeError"

text \<open>The five \<open>print\<close> calls of the \<open>--info\<close> branch, in order; each may raise.\<close>

definition show_info :: "pyval \<Rightarrow> pstate \<Rightarrow> (pyexn + unit) \<times> pstate" where
  "show_info info st =
     (case info_get info (str ''title'') of
        Inl e \<Rightarrow> (Inl e, st)
      | Inr title \<Rightarrow>
     let st1 = say [T (str ''[*] Video Title: ''), V title] st in
     (case info_get info (str ''duration'') of
        Inl e \<Rightarrow> (Inl e, st1)
      | Inr duration \<Rightarrow>
     let st2 = say [T (str ''[*] Duration: ''), V duration, T (str '' seconds'')] st1 in
     (case info_get info (str ''uploader'') of
        Inl e \<Rightarrow> (Inl e, st2)
      | Inr uploader \<Rightarrow>
     let st3 = say [T (str ''[*] Uploader: ''), V uploader] st2 in
     (case info_get info (str ''view_count'') of
        Inl e \<Rightarrow> (Inl e, st3)
      | Inr view_count \<Rightarrow>
     (case format_comma view_count of
        Inl e \<Rightarrow> (Inl e, st3)
      | Inr grouped \<Rightarrow>
     let st4 = say [T (str ''[*] View Count: ''), grouped] st3 in
     (case info_get info (str ''upload_date'') of
        Inl e \<Rightarrow> (Inl e, st4)
      | Inr upload_date \<Rightarrow>
     (Inr (), say [T (str ''[*] Upload Date: ''), V upload_date] st4)))))))"

text \<open>The body of the \<open>try\<close> statement; \<open>sys.exit(1)\<close> raises \<open>SystemExit\<close>.\<close>

definition main_body :: "env \<Rightarrow> args \<Rightarrow> pstate \<Rightarrow> (pyexn + unit) \<times> pstate" where
  "main_body E a st =
     (if args_info a then
        (case get_video_info E (args_url a) st of
           (Inl e, st1) \<Rightarrow> (Inl e, st1)
         | (Inr info, st1) \<Rightarrow> if truthy info then show_info info st1 else (Inr (), st1))
      else if args_list_formats a then
        (case list_formats E (args_url a) st of
           (Inl e, st1) \<Rightarrow> (Inl e, st1)
         | (Inr ok, st1) \<Rightarrow> if \<not> ok then (Inl (SystemExit 1), st1) else (Inr (), st1))
      else
        (case download_video E (args_url a) (args_output a) (args_format a) (args_audio a) st of
           (Inl e, st1) \<Rightarrow> (Inl e, st1)
         | (Inr success, st1) \<Rightarrow> if \<not> success then (Inl (SystemExit 1), st1) else (Inr (), st1)))"

definition main_handler :: "pyexn \<Rightarrow> pstate \<Rightarrow> (pyexn + unit) \<times> pstate" where
  "main_handler e st =
     (if e = KeyboardInterrupt then
        (Inl (SystemExit 1), say [T (0x0A # str ''[!] Download cancelled by user'')] st)
      else if is_Exception e then
        (Inl (SystemExit 1), say [T (str ''[!] Error: ''), Exc e] st)
      else (Inl e, st))"

definition main :: "env \<Rightarrow> args \<Rightarrow> pstate \<Rightarrow> (pyexn + unit) \<times> pstate" where
  "main E a st =
     (case check_yt_dlp_installed E st of
        (Inl e, st1) \<Rightarrow> (Inl e, st1)
      | (Inr installed, st1) \<Rightarrow>
          if \<not> installed then (Inl (SystemExit 1), st1)
          else if \<not> validate_youtube_url (isalnum E) (args_url a) then
            (Inl (SystemExit 1),
             say [T (str ''[!] Error: Invalid YouTube URL: ''), T (args_url a)] st1)
          else
            (case main_body E a st1 of
               (Inl e, st2) \<Rightarrow> main_handler e st2
             | (Inr u, st2) \<Rightarrow> (Inr (), st2)))"

text \<open>
  The exit status of the process: 0 when \<open>main\<close> returns, the argument of \<open>sys.exit\<close>,
  130 for an interrupt that nothing caught, 1 for any other uncaught exception.
\<close>

fun exit_status :: "pyexn + unit \<Rightarrow> int" where
  "exit_status (Inr u) = 0"
| "exit_status (Inl (SystemExit n)) = n"
| "exit_status (Inl KeyboardInterrupt) = 130"
| "exit_status (Inl e) = 1"


text \<open>The subprocess commands among the events of a log, in order.\<close>

fun spawned :: "event list \<Rightarrow> pystr list list" where
  "spawned [] = []"
| "spawned (Spawn cmd # evs) = cmd # spawned evs"
| "spawned (ev # evs) = spawned evs"

section \<open>Sample inputs\<close>

definition sample_url :: pystr where
  "sample_url = str ''https://www.youtube.com/watch?v=dQw4w9WgXcQ''"

definition st0 :: pstate where
  "st0 = \<lparr>log = [], files = Map.empty\<rparr>"

text \<open>A tool that is installed and answers the metadata query with an object that has
  a title and nothing else.\<close>

definition title_only :: pyval where
  "title_only = PDict [(str ''title'', PStr (str ''Demo''))]"

definition env_title_only :: env where
  \<open>env_title_only =
     \<lparr>exec = (\<lambda>cmd fs.
         (if cmd = version_cmd then Exited 0 (str ''2025.01.15'') []
          else if cmd = info_cmd sample_url then Exited 0 (str ''{"title": "Demo"}'') []
          else Exited 0 [] [], fs)),
      json_loads = (\<lambda>text.
         if text = str ''{"title": "Demo"}'' then Inr title_only else Inl JSONDecodeError),
      mkdir_refused = (\<lambda>name fs. None),
      isalnum = ascii_alnum\<rparr>\<close>

text \<open>A tool that is installed and fails on every request with a message on its
  standard error.\<close>

definition env_failing :: env where
  "env_failing =
     \<lparr>exec = (\<lambda>cmd fs.
         (if cmd = version_cmd then Exited 0 (str ''2025.01.15'') []
          else Exited 1 [] (str ''ERROR: Video unavailable''), fs)),
      json_loads = (\<lambda>text. Inl JSONDecodeError),
      mkdir_refused = (\<lambda>name fs. None),
      isalnum = ascii_alnum\<rparr>"

text \<open>A tool that is installed and answers every request with text that is not JSON.\<close>

definition env_garbled :: env where
  "env_garbled =
     \<lparr>exec = (\<lambda>cmd fs.
         (if cmd = version_cmd then Exited 0 (str ''2025.01.15'') []
          else Exited 0 (str ''<html>'') [], fs)),
      json_loads = (\<lambda>text. Inl JSONDecodeError),
      mkdir_refused = (\<lambda>name fs. None),
      isalnum = ascii_alnum\<rparr>"

text \<open>No tool on the path: every attempt to run it raises \<open>FileNotFoundError\<close>.\<close>

definition env_absent :: env where
  "env_absent =
     \<lparr>exec = (\<lambda>cmd fs. (Raised FileNotFoundError, fs)),
      json_loads = (\<lambda>text. Inl JSONDecodeError),
      mkdir_refused = (\<lambda>name fs. None),
      isalnum = ascii_alnum\<rparr>"

text \<open>A tool that is installed and succeeds, writing nothing.\<close>

definition env_working :: env where
  "env_working =
     \<lparr>exec = (\<lambda>cmd fs.
         (if cmd = version_cmd then Exited 0 (str ''2025.01.15'') [] else Exited 0 [] [], fs)),
      json_loads = (\<lambda>text. Inl JSONDecodeError),
      mkdir_refused = (\<lambda>name fs. None),
      isalnum = ascii_alnum\<rparr>"


text \<open>A tool that is installed; the user interrupts every later run of it.\<close>

definition env_interrupted :: env where
  "env_interrupted =
     \<lparr>exec = (\<lambda>cmd fs.
         (if cmd = version_cmd then Exited 0 (str ''2025.01.15'') []
          else Raised KeyboardInterrupt, fs)),
      json_loads = (\<lambda>text. Inl JSONDecodeError),
      mkdir_refused = (\<lambda>name fs. None),
      isalnum = ascii_alnum\<rparr>"

text \<open>A tool that is installed, on a system that lets no directory be created.\<close>

definition env_readonly :: env where
  "env_readonly =
     \<lparr>exec = (\<lambda>cmd fs.
         (if cmd = version_cmd then Exited 0 (str ''2025.01.15'') [] else Exited 0 [] [], fs)),
      json_loads = (\<lambda>text. Inl JSONDecodeError),
      mkdir_refused = (\<lambda>name fs. Some OSError),
      isalnum = ascii_alnum\<rparr>"

text \<open>A tool whose version probe already fails.\<close>

definition env_broken :: env where
  "env_broken =
     \<lparr>exec = (\<lambda>cmd fs. (Exited 1 [] (str ''yt-dlp: error''), fs)),
      json_loads = (\<lambda>text. Inl JSONDecodeError),
      mkdir_refused = (\<lambda>name fs. None),
      isalnum = ascii_alnum\<rparr>"

text \<open>A tool that answers the metadata query with all five fields.\<close>

definition full_info :: pyval where
  "full_info =
     PDict [(str ''title'', PStr (str ''Demo'')),
            (str ''duration'', PInt 212),
            (str ''uploader'', PStr (str ''Someone'')),
            (str ''view_count'', PInt 1234567),
            (str ''upload_date'', PStr (str ''20091025''))]"

definition env_full :: env where
  "env_full =
     \<lparr>exec = (\<lambda>cmd fs.
         (if cmd = version_cmd then Exited 0 (str ''2025.01.15'') []
          else Exited 0 (str ''{...}'') [], fs)),
      json_loads = (\<lambda>text. if text = str ''{...}'' then Inr full_info else Inl JSONDecodeError),
      mkdir_refused = (\<lambda>name fs. None),
      isalnum = ascii_alnum\<rparr>"

definition info_args :: args where
  "info_args =
     \<lparr>args_url = sample_url, args_output = str ''downloads'', args_format = str ''best'',
      args_audio = False, args_list_formats = False, args_info = True\<rparr>"

definition download_args :: args where
  "download_args =
     \<lparr>args_url = sample_url, args_output = str ''downloads'', args_format = str ''best'',
      args_audio = False, args_list_formats = False, args_info = False\<rparr>"

definition both_args :: args where
  "both_args =
     \<lparr>args_url = sample_url, args_output = str ''downloads'', args_format = str ''best'',
      args_audio = False, args_list_formats = True, args_info = True\<rparr>"

definition formats_args :: args where
  "formats_args =
     \<lparr>args_url = sample_url, args_output = str ''downloads'', args_format = str ''best'',
      args_audio = False, args_list_formats = True, args_info = False\<rparr>"

section \<open>What the patterns match\<close>

lemma set_rx_Lit: "set (rx_ends (Lit l) s) = {r. s = l @ r}"
proof -
  have "take (length l) s = l \<Longrightarrow> s = l @ drop (length l) s"
    by (metis append_take_drop_id)
  then show ?thesis by auto
qed

lemma takeWhile_covers:
  assumes "\<forall>c\<in>set m. P c"
  shows "length m \<le> length (takeWhile P (m @ r))"
  using assms by (induction m) auto

lemma take_takeWhile_all:
  assumes "k \<le> length (takeWhile P s)"
  shows "\<forall>c\<in>set (take k s). P c"
proof -
  have "take k s = take k (takeWhile P s)"
    using assms
    by (metis takeWhile_dropWhile_id take_append diff_is_0_eq take_0 append_Nil2)
  then show ?thesis
    by (metis in_set_takeD set_takeWhileD)
qed

lemma set_rx_Plus:
  "set (rx_ends (Plus P) s) = {r. \<exists>m. m \<noteq> [] \<and> (\<forall>c\<in>set m. P c) \<and> s = m @ r}"
proof (intro set_eqI iffI)
  fix r assume "r \<in> set (rx_ends (Plus P) s)"
  then obtain k where k: "k < length (takeWhile P s)" and r: "r = drop (Suc k) s"
    by auto
  have len: "length (takeWhile P s) \<le> length s" by (rule length_takeWhile_le)
  let ?m = "take (Suc k) s"
  have "?m \<noteq> []" using k len by auto
  moreover have "\<forall>c\<in>set ?m. P c" using k by (intro take_takeWhile_all) simp
  moreover have "s = ?m @ r" using r by simp
  ultimately show "r \<in> {r. \<exists>m. m \<noteq> [] \<and> (\<forall>c\<in>set m. P c) \<and> s = m @ r}" by blast
next
  fix r assume "r \<in> {r. \<exists>m. m \<noteq> [] \<and> (\<forall>c\<in>set m. P c) \<and> s = m @ r}"
  then obtain m where m: "m \<noteq> []" "\<forall>c\<in>set m. P c" "s = m @ r" by blast
  have "length m \<le> length (takeWhile P s)" using m takeWhile_covers by blast
  moreover have "0 < length m" using m by simp
  ultimately have "length m - 1 < length (takeWhile P s)" by arith
  moreover have "drop (Suc (length m - 1)) s = r" using m by simp
  ultimately show "r \<in> set (rx_ends (Plus P) s)" by force
qed

lemma set_rx_Opt: "set (rx_ends (Opt r) s) = insert s (set (rx_ends r s))"
  by simp

lemma set_rx_Cat: "set (rx_ends (Cat r1 r2) s) = (\<Union>m\<in>set (rx_ends r1 s). set (rx_ends r2 m))"
  by simp

lemma re_match_iff: "re_match r s \<longleftrightarrow> (\<exists>e. e \<in> set (rx_ends r s))"
  by (cases "rx_ends r s") (auto simp: re_match_def)

lemma rx_ends_append:
  "e \<in> set (rx_ends r s) \<Longrightarrow> e @ t \<in> set (rx_ends r (s @ t))"
proof (induction r arbitrary: s e)
  case (Lit l)
  then show ?case unfolding set_rx_Lit by auto
next
  case (Opt r)
  then show ?case unfolding set_rx_Opt by auto
next
  case (Cat r1 r2)
  then show ?case unfolding set_rx_Cat by blast
next
  case (Plus P)
  then show ?case unfolding set_rx_Plus by auto
qed


lemma set_rx_scheme:
  "set (rx_ends rx_scheme s) = {r. \<exists>scheme\<in>url_schemes. s = scheme @ r}"
  unfolding rx_scheme_def set_rx_Opt set_rx_Cat set_rx_Lit url_schemes_def by auto

lemma set_rx_www:
  "set (rx_ends rx_www s) = {r. \<exists>www\<in>www_prefixes. s = www @ r}"
  unfolding rx_www_def set_rx_Opt set_rx_Lit www_prefixes_def by auto

lemma set_rx_prefix:
  "set (rx_ends rx_prefix s) = {r. \<exists>scheme\<in>url_schemes. \<exists>www\<in>www_prefixes. s = scheme @ www @ r}"
  unfolding rx_prefix_def set_rx_Cat set_rx_scheme set_rx_www by auto

lemma re_match_shape:
  "re_match (Cat rx_prefix (Cat (Lit body) (Plus (id_class alnum)))) url
     = starts_with_shape alnum body url"
proof -
  have "re_match (Cat rx_prefix (Cat (Lit body) (Plus (id_class alnum)))) url
      \<longleftrightarrow> (\<exists>e. \<exists>m\<in>set (rx_ends rx_prefix url). \<exists>k\<in>set (rx_ends (Lit body) m).
             e \<in> set (rx_ends (Plus (id_class alnum)) k))"
    unfolding re_match_iff set_rx_Cat by blast
  also have "\<dots> \<longleftrightarrow> starts_with_shape alnum body url"
    unfolding set_rx_prefix set_rx_Lit set_rx_Plus starts_with_shape_def id_run_def
      id_class_def word_char_def
    by (simp add: disj_ac) blast
  finally show ?thesis .
qed


text \<open>
  C3. The validator returns true exactly for the strings that start with one of the three
  recognized shapes (watch page, short link, embed; each with or without scheme and with
  or without \<open>www.\<close>; anchored at the start, compared character by character), and false
  for every other string. The example URLs of the specification are the witness.
\<close>

theorem validate_youtube_url_shapes:
  "validate_youtube_url alnum url = recognized_shape alnum url"
  unfolding validate_youtube_url_def youtube_patterns_def recognized_shape_def
  by (simp add: re_match_shape del: rx_ends.simps)

theorem validate_youtube_url_shapes_witness:
  "validate_youtube_url ascii_alnum (str ''https://www.youtube.com/watch?v=dQw4w9WgXcQ'')
   \<and> recognized_shape ascii_alnum (str ''https://www.youtube.com/watch?v=dQw4w9WgXcQ'')
   \<and> \<not> validate_youtube_url ascii_alnum (str ''https://vimeo.com/12345'')
   \<and> \<not> recognized_shape ascii_alnum (str ''https://vimeo.com/12345'')"
proof -
  have yes: "validate_youtube_url ascii_alnum (str ''https://www.youtube.com/watch?v=dQw4w9WgXcQ'')"
    by (simp add: validate_youtube_url_def youtube_patterns_def rx_prefix_def rx_scheme_def
        rx_www_def re_match_def id_class_def word_char_def ascii_alnum_def)
  have no: "\<not> validate_youtube_url ascii_alnum (str ''https://vimeo.com/12345'')"
    by (simp add: validate_youtube_url_def youtube_patterns_def rx_prefix_def rx_scheme_def
        rx_www_def re_match_def id_class_def word_char_def ascii_alnum_def)
  show ?thesis
    using yes no
      validate_youtube_url_shapes [of ascii_alnum "str ''https://www.youtube.com/watch?v=dQw4w9WgXcQ''"]
      validate_youtube_url_shapes [of ascii_alnum "str ''https://vimeo.com/12345''"]
    by blast
qed

text \<open>
  C9. Validation is prefix matching: a string that the validator accepts is still accepted
  with any text appended, for instance a watch-page URL followed by a space and more text.
\<close>

theorem validate_youtube_url_prefix:
  "validate_youtube_url alnum url \<Longrightarrow> validate_youtube_url alnum (url @ trailing)"
proof -
  have step: "re_match r s \<Longrightarrow> re_match r (s @ t)" for r s t
    unfolding re_match_iff using rx_ends_append by blast
  have "any_match ps s \<Longrightarrow> any_match ps (s @ t)" for ps s t
    by (induction ps) (auto dest: step split: if_splits)
  then show "validate_youtube_url alnum url \<Longrightarrow> validate_youtube_url alnum (url @ trailing)"
    unfolding validate_youtube_url_def .
qed

theorem validate_youtube_url_prefix_witness:
  "validate_youtube_url ascii_alnum (str ''https://www.youtube.com/watch?v=dQw4w9WgXcQ'')
   \<and> validate_youtube_url ascii_alnum
        (str ''https://www.youtube.com/watch?v=dQw4w9WgXcQ'' @ str '' and anything else'')"
proof -
  have h: "validate_youtube_url ascii_alnum (str ''https://www.youtube.com/watch?v=dQw4w9WgXcQ'')"
    by (simp add: validate_youtube_url_def youtube_patterns_def rx_prefix_def rx_scheme_def
        rx_www_def re_match_def id_class_def word_char_def ascii_alnum_def)
  show ?thesis
    using h validate_youtube_url_prefix [OF h, of "str '' and anything else''"] by blast
qed

section \<open>The program: events and outcomes\<close>

lemmas validate_defs = validate_youtube_url_def youtube_patterns_def rx_prefix_def rx_scheme_def
  rx_www_def re_match_def id_class_def word_char_def ascii_alnum_def

lemma spawned_append: "spawned (xs @ ys) = spawned xs @ spawned ys"
  by (induction xs rule: spawned.induct) simp_all

lemma log_say: "log (say line st) = log st @ [Print line]"
  by (simp add: say_def)

lemma files_say: "files (say line st) = files st"
  by (simp add: say_def)

lemma spawned_say: "spawned (log (say line st)) = spawned (log st)"
  by (simp add: log_say spawned_append)

lemma log_subprocess_run: "log (snd (subprocess_run E cmd capture st)) = log st @ [Spawn cmd]"
  by (simp add: subprocess_run_def Let_def split: prod.splits proc_result.splits)

lemma spawned_subprocess_run:
  "spawned (log (snd (subprocess_run E cmd capture st))) = spawned (log st) @ [cmd]"
  by (simp add: log_subprocess_run spawned_append)

lemma spawned_check_handler: "spawned (log (snd (check_handler e st))) = spawned (log st)"
  by (simp add: check_handler_def spawned_say)

lemma spawned_check:
  "spawned (log (snd (check_yt_dlp_installed E st))) = spawned (log st) @ [version_cmd]"
proof -
  obtain r st1 where run: "subprocess_run E version_cmd True st = (r, st1)"
    by (cases "subprocess_run E version_cmd True st")
  then have st1: "spawned (log st1) = spawned (log st) @ [version_cmd]"
    using spawned_subprocess_run [of E version_cmd True st] by simp
  show ?thesis
    using st1 run
    by (auto simp: check_yt_dlp_installed_def spawned_check_handler spawned_say
        split: sum.splits pyval.splits)
qed

lemma spawned_info_handler: "spawned (log (snd (info_handler e st))) = spawned (log st)"
  by (cases e) (simp_all add: spawned_say)

lemma spawned_get_video_info:
  "spawned (log (snd (get_video_info E url st))) = spawned (log st) @ [info_cmd url]"
proof -
  obtain r st1 where run: "subprocess_run E (info_cmd url) True st = (r, st1)"
    by (cases "subprocess_run E (info_cmd url) True st")
  then have st1: "spawned (log st1) = spawned (log st) @ [info_cmd url]"
    using spawned_subprocess_run [of E "info_cmd url" True st] by simp
  show ?thesis
    using st1 run
    by (auto simp: get_video_info_def spawned_info_handler split: sum.splits)
qed

lemma spawned_show_info: "spawned (log (snd (show_info info st))) = spawned (log st)"
  by (simp add: show_info_def Let_def spawned_say split: sum.splits)

lemma spawned_formats_handler: "spawned (log (snd (formats_handler e st))) = spawned (log st)"
  by (cases e) (simp_all add: spawned_say)

lemma spawned_list_formats:
  "spawned (log (snd (list_formats E url st))) = spawned (log st) @ [formats_cmd url]"
proof -
  let ?st0 = "say [T (str ''[*] Getting available formats for: ''), T url] st"
  obtain r st1 where run: "subprocess_run E (formats_cmd url) True ?st0 = (r, st1)"
    by (cases "subprocess_run E (formats_cmd url) True ?st0")
  then have st1: "spawned (log st1) = spawned (log st) @ [formats_cmd url]"
    using spawned_subprocess_run [of E "formats_cmd url" True ?st0] by (simp add: spawned_say)
  show ?thesis
    using st1 run
    by (auto simp: list_formats_def Let_def spawned_formats_handler spawned_say split: sum.splits)
qed

lemma spawned_main_handler: "spawned (log (snd (main_handler e st))) = spawned (log st)"
  by (simp add: main_handler_def spawned_say)


text \<open>
  C7. When the version probe cannot find the binary (\<open>FileNotFoundError\<close>) or exits with
  a status other than zero, \<open>main\<close> prints the absence notice and the installation hint
  and exits with status 1. The log holds the probe as the only subprocess call, and the
  outcome does not depend on the arguments: the URL is not looked at.
\<close>

theorem main_tool_absent:
  assumes "exec E version_cmd (files st) = (res, fs')"
    and "res = Raised FileNotFoundError \<or> (\<exists>rc out err. res = Exited rc out err \<and> rc \<noteq> 0)"
  shows "main E a st =
           (Inl (SystemExit 1),
            \<lparr>log = log st @ [Spawn version_cmd,
                             Print [T (0x274C # str '' yt-dlp is not installed'')],
                             Print [T (str ''   Install with: pip install yt-dlp'')]],
             files = fs'\<rparr>)
         \<and> exit_status (fst (main E a st)) = 1"
  using assms
  by (auto simp: main_def check_yt_dlp_installed_def subprocess_run_def check_handler_def say_def)

theorem main_tool_absent_witness:
  "main env_absent info_args st0 =
     (Inl (SystemExit 1),
      \<lparr>log = [Spawn version_cmd,
              Print [T (0x274C # str '' yt-dlp is not installed'')],
              Print [T (str ''   Install with: pip install yt-dlp'')]],
       files = Map.empty\<rparr>)
   \<and> exit_status (fst (main env_absent info_args st0)) = 1
   \<and> exit_status (fst (main env_broken info_args st0)) = 1
   \<and> spawned (log (snd (main env_broken info_args st0))) = [version_cmd]"
proof -
  have a1: "exec env_absent version_cmd (files st0) = (Raised FileNotFoundError, Map.empty)"
    by (simp add: env_absent_def st0_def)
  have a2: "Raised FileNotFoundError = Raised FileNotFoundError
            \<or> (\<exists>rc out err. Raised FileNotFoundError = Exited rc out err \<and> rc \<noteq> 0)"
    by simp
  have b1: "exec env_broken version_cmd (files st0) = (Exited 1 [] (str ''yt-dlp: error''), Map.empty)"
    by (simp add: env_broken_def st0_def)
  have b2: "Exited 1 [] (str ''yt-dlp: error'') = Raised FileNotFoundError
            \<or> (\<exists>rc out err. Exited 1 [] (str ''yt-dlp: error'') = Exited rc out err \<and> rc \<noteq> 0)"
    by simp
  show ?thesis
    using main_tool_absent [OF a1 a2, of info_args] main_tool_absent [OF b1 b2, of info_args]
    by (simp add: st0_def)
qed

text \<open>
  C5. When the tool exits with a status other than zero, \<open>get_video_info\<close> prints the
  tool's standard error after its prefix and returns \<open>None\<close>; when the tool's output is
  not JSON, it prints the parse failure and returns \<open>None\<close>. In both cases the function
  returns (\<open>Inr\<close>) rather than raises.
\<close>

theorem get_video_info_failure:
  "(exec E (info_cmd url) (files st) = (Exited rc out err, fs') \<and> rc \<noteq> 0 \<longrightarrow>
      get_video_info E url st =
        (Inr PNone,
         \<lparr>log = log st @ [Spawn (info_cmd url),
                          Print [T (str ''[!] Error getting video info: ''), V (PStr err)]],
          files = fs'\<rparr>))
   \<and> (exec E (info_cmd url) (files st) = (Exited 0 out err, fs')
        \<and> json_loads E out = Inl JSONDecodeError \<longrightarrow>
      get_video_info E url st =
        (Inr PNone,
         \<lparr>log = log st @ [Spawn (info_cmd url),
                          Print [T (str ''[!] Error parsing video information'')]],
          files = fs'\<rparr>))"
  by (simp add: get_video_info_def subprocess_run_def loads_def say_def)

theorem get_video_info_failure_witness:
  "get_video_info env_failing sample_url st0 =
     (Inr PNone,
      \<lparr>log = [Spawn (info_cmd sample_url),
              Print [T (str ''[!] Error getting video info: ''),
                     V (PStr (str ''ERROR: Video unavailable''))]],
       files = Map.empty\<rparr>)
   \<and> get_video_info env_garbled sample_url st0 =
     (Inr PNone,
      \<lparr>log = [Spawn (info_cmd sample_url),
              Print [T (str ''[!] Error parsing video information'')]],
       files = Map.empty\<rparr>)"
proof -
  have a: "exec env_failing (info_cmd sample_url) (files st0)
             = (Exited 1 [] (str ''ERROR: Video unavailable''), Map.empty) \<and> (1::int) \<noteq> 0"
    by (simp add: env_failing_def st0_def info_cmd_def version_cmd_def)
  have b: "exec env_garbled (info_cmd sample_url) (files st0) = (Exited 0 (str ''<html>'') [], Map.empty)
           \<and> json_loads env_garbled (str ''<html>'') = Inl JSONDecodeError"
    by (simp add: env_garbled_def st0_def info_cmd_def version_cmd_def)
  show ?thesis
    using a b
      get_video_info_failure [of env_failing sample_url st0 1 "[]" "str ''ERROR: Video unavailable''"
        Map.empty]
      get_video_info_failure [of env_garbled sample_url st0 1 "str ''<html>''" "[]" Map.empty]
    by (simp add: st0_def)
qed

lemma download_handler_Exception:
  "is_Exception e \<Longrightarrow>
     download_handler e st =
       (Inr False,
        say [T (if is_CalledProcessError e then str ''[!] Download error: ''
                else str ''[!] Unexpected error: ''), Exc e] st)"
  by (simp add: download_handler_def)

lemma download_handler_not_True: "fst (download_handler e st) \<noteq> Inr True"
  by (simp add: download_handler_def)

lemma download_handler_Inl:
  "fst (download_handler e st) = Inl e' \<Longrightarrow> \<not> is_Exception e'"
  by (auto simp: download_handler_def split: if_splits)

text \<open>
  C6 (as amended). \<open>download_video\<close> returns \<open>True\<close> exactly when the directory step
  succeeded and the tool exited with status zero. A status other than zero, or an
  exception of class \<open>Exception\<close> while running the tool or while creating the directory,
  is printed as a diagnostic and the function returns \<open>False\<close>; no exception of class
  \<open>Exception\<close> leaves the function. A \<open>KeyboardInterrupt\<close> while the tool runs is not
  handled here: it leaves the function, for the handler in \<open>main\<close>.
\<close>

theorem download_video_outcome:
  "(fst (download_video E url out fmt audio st) = Inr True \<longleftrightarrow>
      (\<exists>fs1 so se fs2. os_makedirs E out True (files st) = Inr fs1
         \<and> exec E (download_cmd url out fmt audio) fs1 = (Exited 0 so se, fs2)))
   \<and> (os_makedirs E out True (files st) = Inr fs1
        \<and> exec E (download_cmd url out fmt audio) fs1 = (Exited rc so se, fs2) \<and> rc \<noteq> 0 \<longrightarrow>
      fst (download_video E url out fmt audio st) = Inr False
      \<and> last (log (snd (download_video E url out fmt audio st))) =
          Print [T (str ''[!] Download error: ''),
                 Exc (CalledProcessError rc (download_cmd url out fmt audio) PNone PNone)])
   \<and> (os_makedirs E out True (files st) = Inr fs1
        \<and> exec E (download_cmd url out fmt audio) fs1 = (Raised e, fs2) \<and> is_Exception e \<longrightarrow>
      fst (download_video E url out fmt audio st) = Inr False
      \<and> last (log (snd (download_video E url out fmt audio st))) =
          Print [T (if is_CalledProcessError e then str ''[!] Download error: ''
                    else str ''[!] Unexpected error: ''), Exc e])
   \<and> (os_makedirs E out True (files st) = Inl e \<and> is_Exception e \<longrightarrow>
      fst (download_video E url out fmt audio st) = Inr False
      \<and> last (log (snd (download_video E url out fmt audio st))) =
          Print [T (if is_CalledProcessError e then str ''[!] Download error: ''
                    else str ''[!] Unexpected error: ''), Exc e])
   \<and> (\<forall>e'. fst (download_video E url out fmt audio st) = Inl e' \<longrightarrow> \<not> is_Exception e')
   \<and> (os_makedirs E out True (files st) = Inr fs1
        \<and> exec E (download_cmd url out fmt audio) fs1 = (Raised KeyboardInterrupt, fs2) \<longrightarrow>
      fst (download_video E url out fmt audio st) = Inl KeyboardInterrupt)"
proof (intro conjI impI allI)
  show "fst (download_video E url out fmt audio st) = Inr True \<longleftrightarrow>
      (\<exists>fs1 so se fs2. os_makedirs E out True (files st) = Inr fs1
         \<and> exec E (download_cmd url out fmt audio) fs1 = (Exited 0 so se, fs2))"
    by (auto simp: download_video_def subprocess_run_def Let_def say_def download_handler_not_True
        split: sum.splits prod.splits proc_result.splits)
next
  assume "os_makedirs E out True (files st) = Inr fs1
        \<and> exec E (download_cmd url out fmt audio) fs1 = (Exited rc so se, fs2) \<and> rc \<noteq> 0"
  then show "fst (download_video E url out fmt audio st) = Inr False"
    and "last (log (snd (download_video E url out fmt audio st))) =
          Print [T (str ''[!] Download error: ''),
                 Exc (CalledProcessError rc (download_cmd url out fmt audio) PNone PNone)]"
    by (simp_all add: download_video_def subprocess_run_def Let_def say_def download_handler_def)
next
  assume "os_makedirs E out True (files st) = Inr fs1
        \<and> exec E (download_cmd url out fmt audio) fs1 = (Raised e, fs2) \<and> is_Exception e"
  then show "fst (download_video E url out fmt audio st) = Inr False"
    and "last (log (snd (download_video E url out fmt audio st))) =
          Print [T (if is_CalledProcessError e then str ''[!] Download error: ''
                    else str ''[!] Unexpected error: ''), Exc e]"
    by (simp_all add: download_video_def subprocess_run_def Let_def say_def download_handler_Exception)
next
  assume "os_makedirs E out True (files st) = Inl e \<and> is_Exception e"
  then show "fst (download_video E url out fmt audio st) = Inr False"
    and "last (log (snd (download_video E url out fmt audio st))) =
          Print [T (if is_CalledProcessError e then str ''[!] Download error: ''
                    else str ''[!] Unexpected error: ''), Exc e]"
    by (simp_all add: download_video_def Let_def say_def download_handler_Exception)
next
  fix e' assume "fst (download_video E url out fmt audio st) = Inl e'"
  then show "\<not> is_Exception e'"
    by (auto simp: download_video_def subprocess_run_def Let_def say_def
        split: sum.splits prod.splits proc_result.splits if_splits
        dest: download_handler_Inl)
next
  assume "os_makedirs E out True (files st) = Inr fs1
        \<and> exec E (download_cmd url out fmt audio) fs1 = (Raised KeyboardInterrupt, fs2)"
  then show "fst (download_video E url out fmt audio st) = Inl KeyboardInterrupt"
    by (simp add: download_video_def subprocess_run_def Let_def say_def download_handler_def)
qed


theorem download_video_outcome_witness:
  "fst (download_video env_working sample_url (str ''downloads'') (str ''best'') False st0) = Inr True
   \<and> fst (download_video env_failing sample_url (str ''downloads'') (str ''best'') False st0) = Inr False
   \<and> last (log (snd (download_video env_failing sample_url (str ''downloads'') (str ''best'') False st0)))
       = Print [T (str ''[!] Download error: ''),
                Exc (CalledProcessError 1
                  (download_cmd sample_url (str ''downloads'') (str ''best'') False) PNone PNone)]
   \<and> fst (download_video env_absent sample_url (str ''downloads'') (str ''best'') False st0) = Inr False
   \<and> last (log (snd (download_video env_absent sample_url (str ''downloads'') (str ''best'') False st0)))
       = Print [T (str ''[!] Unexpected error: ''), Exc FileNotFoundError]
   \<and> fst (download_video env_readonly sample_url (str ''downloads'') (str ''best'') False st0) = Inr False
   \<and> last (log (snd (download_video env_readonly sample_url (str ''downloads'') (str ''best'') False st0)))
       = Print [T (str ''[!] Unexpected error: ''), Exc OSError]
   \<and> fst (download_video env_interrupted sample_url (str ''downloads'') (str ''best'') False st0)
       = Inl KeyboardInterrupt
   \<and> \<not> is_Exception KeyboardInterrupt"
proof -
  let ?cmd = "download_cmd sample_url (str ''downloads'') (str ''best'') False"
  let ?fs1 = "add_dirs (parents (str ''downloads'') @ [str ''downloads'']) Map.empty"
  have w: "os_makedirs env_working (str ''downloads'') True (files st0) = Inr ?fs1
           \<and> exec env_working ?cmd ?fs1 = (Exited 0 [] [], ?fs1)"
    by (simp add: env_working_def st0_def os_makedirs_def download_cmd_def version_cmd_def)
  have f: "os_makedirs env_failing (str ''downloads'') True (files st0) = Inr ?fs1
           \<and> exec env_failing ?cmd ?fs1 = (Exited 1 [] (str ''ERROR: Video unavailable''), ?fs1)
           \<and> (1::int) \<noteq> 0"
    by (simp add: env_failing_def st0_def os_makedirs_def download_cmd_def version_cmd_def)
  have a: "os_makedirs env_absent (str ''downloads'') True (files st0) = Inr ?fs1
           \<and> exec env_absent ?cmd ?fs1 = (Raised FileNotFoundError, ?fs1)
           \<and> is_Exception FileNotFoundError"
    by (simp add: env_absent_def st0_def os_makedirs_def)
  have 1: "fst (download_video env_working sample_url (str ''downloads'') (str ''best'') False st0) = Inr True"
    using w download_video_outcome [of env_working sample_url "str ''downloads''" "str ''best''" False st0]
    by blast
  have 2: "fst (download_video env_failing sample_url (str ''downloads'') (str ''best'') False st0) = Inr False
     \<and> last (log (snd (download_video env_failing sample_url (str ''downloads'') (str ''best'') False st0)))
       = Print [T (str ''[!] Download error: ''), Exc (CalledProcessError 1 ?cmd PNone PNone)]"
    using f download_video_outcome [of env_failing sample_url "str ''downloads''" "str ''best''" False st0
        ?fs1 1 "[]" "str ''ERROR: Video unavailable''" ?fs1]
    by blast
  have 3: "fst (download_video env_absent sample_url (str ''downloads'') (str ''best'') False st0) = Inr False
     \<and> last (log (snd (download_video env_absent sample_url (str ''downloads'') (str ''best'') False st0)))
       = Print [T (str ''[!] Unexpected error: ''), Exc FileNotFoundError]"
    using a download_video_outcome [of env_absent sample_url "str ''downloads''" "str ''best''" False st0
        ?fs1 1 "[]" "[]" ?fs1 FileNotFoundError]
    by simp
  have i: "os_makedirs env_interrupted (str ''downloads'') True (files st0) = Inr ?fs1
           \<and> exec env_interrupted ?cmd ?fs1 = (Raised KeyboardInterrupt, ?fs1)"
    by (simp add: env_interrupted_def st0_def os_makedirs_def download_cmd_def version_cmd_def)
  have 4: "fst (download_video env_interrupted sample_url (str ''downloads'') (str ''best'') False st0)
       = Inl KeyboardInterrupt"
    using i download_video_outcome [of env_interrupted sample_url "str ''downloads''" "str ''best''" False st0
        ?fs1 1 "[]" "[]" ?fs1 FileNotFoundError]
    by blast
  have r: "os_makedirs env_readonly (str ''downloads'') True (files st0) = Inl OSError
           \<and> is_Exception OSError"
    by (simp add: env_readonly_def st0_def os_makedirs_def)
  have 5: "fst (download_video env_readonly sample_url (str ''downloads'') (str ''best'') False st0) = Inr False
     \<and> last (log (snd (download_video env_readonly sample_url (str ''downloads'') (str ''best'') False st0)))
       = Print [T (str ''[!] Unexpected error: ''), Exc OSError]"
    using r download_video_outcome [of env_readonly sample_url "str ''downloads''" "str ''best''" False st0
        ?fs1 1 "[]" "[]" ?fs1 OSError]
    by simp
  have 6: "\<not> is_Exception KeyboardInterrupt"
    using 4 download_video_outcome [of env_interrupted sample_url "str ''downloads''" "str ''best''" False st0]
    by blast
  show ?thesis using 1 2 3 4 5 6 by blast
qed

text \<open>
  C6 as stated fails for the exception that an interrupt raises: when the user interrupts
  the download, \<open>download_video\<close> does not return \<open>False\<close>, it raises
  \<open>KeyboardInterrupt\<close>; \<open>main\<close> catches it, prints that the download was cancelled
  and exits with status 1.
\<close>

theorem download_video_outcome_counterexample:
  "fst (download_video env_interrupted sample_url (str ''downloads'') (str ''best'') False st0)
     = Inl KeyboardInterrupt
   \<and> fst (main env_interrupted download_args st0) = Inl (SystemExit 1)
   \<and> last (log (snd (main env_interrupted download_args st0)))
       = Print [T (0x0A # str ''[!] Download cancelled by user'')]"
proof -
  have valid: "validate_youtube_url ascii_alnum sample_url"
    by (simp add: validate_defs sample_url_def)
  have cmd: "download_cmd sample_url (str ''downloads'') (str ''best'') False \<noteq> version_cmd"
    by (simp add: download_cmd_def version_cmd_def)
  have d: "fst (download_video env_interrupted sample_url (str ''downloads'') (str ''best'') False st0)
     = Inl KeyboardInterrupt"
    using cmd
    by (simp add: download_video_def os_makedirs_def subprocess_run_def say_def download_handler_def
        env_interrupted_def st0_def Let_def)
  have m: "fst (main env_interrupted download_args st0) = Inl (SystemExit 1)
     \<and> last (log (snd (main env_interrupted download_args st0)))
       = Print [T (0x0A # str ''[!] Download cancelled by user'')]"
    using cmd valid
    by (simp add: main_def main_body_def main_handler_def check_yt_dlp_installed_def
        download_video_def os_makedirs_def subprocess_run_def say_def download_handler_def
        env_interrupted_def download_args_def st0_def Let_def)
  show ?thesis using d m by blast
qed

lemma log_download_handler:
  "\<exists>rest. log (snd (download_handler e st)) = log st @ rest \<and> spawned rest = []"
  by (simp add: download_handler_def say_def)

lemma os_makedirs_Dir:
  "os_makedirs E name True fs = Inr fs1 \<Longrightarrow> fs1 name = Some Dir"
  by (auto simp: os_makedirs_def add_dirs_def split: option.splits node.splits)

lemma os_makedirs_existing:
  "fs name = Some Dir \<Longrightarrow> os_makedirs E name True fs = Inr fs"
  by (simp add: os_makedirs_def)

lemma os_makedirs_created:
  "fs name = None \<Longrightarrow> mkdir_refused E name fs = None \<Longrightarrow>
     \<exists>fs1. os_makedirs E name exist_ok fs = Inr fs1 \<and> (\<forall>p\<in>set (parents name @ [name]). fs1 p \<noteq> None)"
  by (simp add: os_makedirs_def add_dirs_def)

lemma download_video_failed_makedirs:
  "os_makedirs E out True (files st) = Inl e \<Longrightarrow>
     download_video E url out fmt audio st
       = download_handler e (st\<lparr>log := log st @ [Makedirs out]\<rparr>)"
  by (simp add: download_video_def)

lemma download_video_log:
  assumes "os_makedirs E out True (files st) = Inr fs1"
  shows "\<exists>tail. log (snd (download_video E url out fmt audio st))
           = log st @ [Makedirs out,
               Print [T (str ''[*] Starting download with command: ''),
                      T (join (str '' '') (download_cmd url out fmt audio))],
               Print [T (str ''[*] Output directory: ''), T out],
               Spawn (download_cmd url out fmt audio)] @ tail
           \<and> spawned tail = []"
    and "files (snd (download_video E url out fmt audio st))
           = snd (exec E (download_cmd url out fmt audio) fs1)"
  using assms
  by (auto simp: download_video_def subprocess_run_def Let_def say_def download_handler_def
      split: sum.splits prod.splits proc_result.splits)

text \<open>
  C8. The first thing \<open>download_video\<close> does is the \<open>os.makedirs\<close> call; when the tool is
  run at all, that call has succeeded and the tool runs on a file system in which the
  output path is a directory. A missing directory that the system lets be created is
  created with its missing parents. When the path is a directory already, the creation
  step succeeds, changes nothing, and the tool is run.
\<close>

theorem download_video_makedirs:
  "(\<exists>rest. log (snd (download_video E url out fmt audio st)) = log st @ Makedirs out # rest
      \<and> (spawned rest \<noteq> [] \<longrightarrow>
           spawned rest = [download_cmd url out fmt audio]
           \<and> (\<exists>fs1. os_makedirs E out True (files st) = Inr fs1 \<and> fs1 out = Some Dir
                 \<and> files (snd (download_video E url out fmt audio st))
                     = snd (exec E (download_cmd url out fmt audio) fs1))))
   \<and> (files st out = None \<and> mkdir_refused E out (files st) = None \<longrightarrow>
        (\<exists>fs1. os_makedirs E out True (files st) = Inr fs1
           \<and> (\<forall>p\<in>set (parents out @ [out]). fs1 p \<noteq> None)))
   \<and> (files st out = Some Dir \<longrightarrow>
        os_makedirs E out True (files st) = Inr (files st)
        \<and> spawned (log (snd (download_video E url out fmt audio st)))
            = spawned (log st) @ [download_cmd url out fmt audio])"
proof (intro conjI impI)
  show "\<exists>rest. log (snd (download_video E url out fmt audio st)) = log st @ Makedirs out # rest
      \<and> (spawned rest \<noteq> [] \<longrightarrow>
           spawned rest = [download_cmd url out fmt audio]
           \<and> (\<exists>fs1. os_makedirs E out True (files st) = Inr fs1 \<and> fs1 out = Some Dir
                 \<and> files (snd (download_video E url out fmt audio st))
                     = snd (exec E (download_cmd url out fmt audio) fs1)))"
  proof (cases "os_makedirs E out True (files st)")
    case (Inl e)
    obtain rest where "log (snd (download_handler e (st\<lparr>log := log st @ [Makedirs out]\<rparr>)))
        = log (st\<lparr>log := log st @ [Makedirs out]\<rparr>) @ rest" and "spawned rest = []"
      using log_download_handler by blast
    then show ?thesis
      using download_video_failed_makedirs [OF Inl] by simp
  next
    case (Inr fs1)
    from download_video_log [OF Inr, of url fmt audio]
    obtain tail where
      "log (snd (download_video E url out fmt audio st))
           = log st @ [Makedirs out,
               Print [T (str ''[*] Starting download with command: ''),
                      T (join (str '' '') (download_cmd url out fmt audio))],
               Print [T (str ''[*] Output directory: ''), T out],
               Spawn (download_cmd url out fmt audio)] @ tail"
      and "spawned tail = []"
      and "files (snd (download_video E url out fmt audio st))
           = snd (exec E (download_cmd url out fmt audio) fs1)"
      by blast
    then show ?thesis
      using Inr os_makedirs_Dir [OF Inr] by (simp add: spawned_append)
  qed
next
  assume "files st out = None \<and> mkdir_refused E out (files st) = None"
  then show "\<exists>fs1. os_makedirs E out True (files st) = Inr fs1
           \<and> (\<forall>p\<in>set (parents out @ [out]). fs1 p \<noteq> None)"
    using os_makedirs_created by blast
next
  assume dir: "files st out = Some Dir"
  then show "os_makedirs E out True (files st) = Inr (files st)"
    by (rule os_makedirs_existing)
  with download_video_log(1) [of E out st "files st" url fmt audio]
  show "spawned (log (snd (download_video E url out fmt audio st)))
            = spawned (log st) @ [download_cmd url out fmt audio]"
    by (auto simp: spawned_append)
qed


theorem download_video_makedirs_witness:
  "files st0 (str ''downloads/music'') = None
   \<and> log (snd (download_video env_working sample_url (str ''downloads/music'') (str ''best'') False st0))
       = [Makedirs (str ''downloads/music''),
          Print [T (str ''[*] Starting download with command: ''),
                 T (str ''yt-dlp --output downloads/music/%(title)s.%(ext)s --no-playlist --progress --format best https://www.youtube.com/watch?v=dQw4w9WgXcQ'')],
          Print [T (str ''[*] Output directory: ''), T (str ''downloads/music'')],
          Spawn (download_cmd sample_url (str ''downloads/music'') (str ''best'') False),
          Print [T (str ''[+] Download completed successfully!'')]]
   \<and> files (snd (download_video env_working sample_url (str ''downloads/music'') (str ''best'') False st0))
         (str ''downloads/music'') = Some Dir
   \<and> files (snd (download_video env_working sample_url (str ''downloads/music'') (str ''best'') False st0))
         (str ''downloads'') = Some Dir
   \<and> (\<exists>fs1. os_makedirs env_working (str ''downloads/music'') True (files st0) = Inr fs1
          \<and> fs1 (str ''downloads'') \<noteq> None \<and> fs1 (str ''downloads/music'') \<noteq> None)
   \<and> (\<exists>fs1. os_makedirs env_working (str ''downloads/music'') True (files st0) = Inr fs1
          \<and> fs1 (str ''downloads/music'') = Some Dir
          \<and> files (snd (download_video env_working sample_url (str ''downloads/music'') (str ''best'') False st0))
              = snd (exec env_working
                      (download_cmd sample_url (str ''downloads/music'') (str ''best'') False) fs1))
   \<and> os_makedirs env_working (str ''downloads/music'') True
         (files (snd (download_video env_working sample_url (str ''downloads/music'') (str ''best'') False st0)))
       = Inr (files (snd (download_video env_working sample_url (str ''downloads/music'') (str ''best'') False st0)))
   \<and> spawned (log (snd (download_video env_working sample_url (str ''downloads/music'') (str ''best'') False
         (snd (download_video env_working sample_url (str ''downloads/music'') (str ''best'') False st0)))))
       = [download_cmd sample_url (str ''downloads/music'') (str ''best'') False,
          download_cmd sample_url (str ''downloads/music'') (str ''best'') False]"
proof -
  let ?out = "str ''downloads/music''"
  let ?cmd = "download_cmd sample_url ?out (str ''best'') False"
  let ?st1 = "snd (download_video env_working sample_url ?out (str ''best'') False st0)"
  have par: "parents ?out = [str ''downloads'']"
    by (simp add: parents_def upt_rec)
  have cmd: "?cmd \<noteq> version_cmd"
    by (simp add: download_cmd_def version_cmd_def)
  have first: "download_video env_working sample_url ?out (str ''best'') False st0
      = (Inr True,
         \<lparr>log = [Makedirs ?out,
            Print [T (str ''[*] Starting download with command: ''), T (join (str '' '') ?cmd)],
            Print [T (str ''[*] Output directory: ''), T ?out],
            Spawn ?cmd,
            Print [T (str ''[+] Download completed successfully!'')]],
          files = add_dirs [str ''downloads'', ?out] Map.empty\<rparr>)"
    using cmd
    by (simp add: download_video_def os_makedirs_def subprocess_run_def say_def env_working_def
        st0_def par [simplified] Let_def)
  have j: "join (str '' '') ?cmd = str ''yt-dlp --output downloads/music/%(title)s.%(ext)s --no-playlist --progress --format best https://www.youtube.com/watch?v=dQw4w9WgXcQ''"
    by (simp add: download_cmd_def sample_url_def)
  have none: "files st0 ?out = None \<and> mkdir_refused env_working ?out (files st0) = None"
    by (simp add: st0_def env_working_def)
  have dir: "files ?st1 ?out = Some Dir" and dir': "files ?st1 (str ''downloads'') = Some Dir"
    using first by (simp_all add: add_dirs_def)
  from download_video_makedirs [of env_working sample_url ?out "str ''best''" False ?st1] dir
  have again: "os_makedirs env_working ?out True (files ?st1) = Inr (files ?st1)
      \<and> spawned (log (snd (download_video env_working sample_url ?out (str ''best'') False ?st1)))
          = spawned (log ?st1) @ [?cmd]"
    by blast
  from download_video_makedirs [of env_working sample_url ?out "str ''best''" False st0] none
  obtain fs1 where "os_makedirs env_working ?out True (files st0) = Inr fs1"
    and "\<forall>p\<in>set (parents ?out @ [?out]). fs1 p \<noteq> None"
    by blast
  then have created: "\<exists>fs1. os_makedirs env_working ?out True (files st0) = Inr fs1
      \<and> fs1 (str ''downloads'') \<noteq> None \<and> fs1 ?out \<noteq> None"
    unfolding par by auto
  have sp: "spawned (log ?st1) = [?cmd]"
    using first by simp
  from download_video_makedirs [of env_working sample_url ?out "str ''best''" False st0]
  obtain rest where rest: "log ?st1 = log st0 @ Makedirs ?out # rest"
    and run: "spawned rest \<noteq> [] \<longrightarrow>
           spawned rest = [?cmd]
           \<and> (\<exists>fs1. os_makedirs env_working ?out True (files st0) = Inr fs1 \<and> fs1 ?out = Some Dir
                 \<and> files ?st1 = snd (exec env_working ?cmd fs1))"
    by blast
  have "spawned rest = [?cmd]"
    using sp rest by (simp add: st0_def)
  with run have before: "\<exists>fs1. os_makedirs env_working ?out True (files st0) = Inr fs1
      \<and> fs1 ?out = Some Dir \<and> files ?st1 = snd (exec env_working ?cmd fs1)"
    by simp
  from sp again none dir dir' first j created before show ?thesis
    by simp
qed

lemma spawned_main_body_info:
  assumes "args_info a"
  shows "spawned (log (snd (main_body E a st))) = spawned (log st) @ [info_cmd (args_url a)]"
proof -
  obtain r st1 where q: "get_video_info E (args_url a) st = (r, st1)"
    by (cases "get_video_info E (args_url a) st")
  then have "spawned (log st1) = spawned (log st) @ [info_cmd (args_url a)]"
    using spawned_get_video_info [of E "args_url a" st] by simp
  then show ?thesis
    using assms q by (auto simp: main_body_def spawned_show_info split: sum.splits)
qed

lemma spawned_main_body_formats:
  assumes "\<not> args_info a" and "args_list_formats a"
  shows "spawned (log (snd (main_body E a st))) = spawned (log st) @ [formats_cmd (args_url a)]"
proof -
  obtain r st1 where q: "list_formats E (args_url a) st = (r, st1)"
    by (cases "list_formats E (args_url a) st")
  then have "spawned (log st1) = spawned (log st) @ [formats_cmd (args_url a)]"
    using spawned_list_formats [of E "args_url a" st] by simp
  then show ?thesis
    using assms q by (auto simp: main_body_def split: sum.splits)
qed

text \<open>
  C10. With \<open>--info\<close> the only subprocess calls are the version probe and, once the tool
  is found and the URL accepted, the metadata query: the format listing is never run,
  and the value of \<open>--list-formats\<close> makes no difference to what \<open>main\<close> does. Without
  \<open>--info\<close> and with \<open>--list-formats\<close>, the calls are the probe and the format listing,
  and the download options make no difference.
\<close>

theorem flag_precedence:
  "(args_info a \<longrightarrow>
      spawned (log (snd (main E a st))) =
        spawned (log st) @ version_cmd #
          (if fst (check_yt_dlp_installed E st) = Inr True
              \<and> validate_youtube_url (isalnum E) (args_url a)
           then [info_cmd (args_url a)] else [])
      \<and> main E a st = main E (a\<lparr>args_list_formats := lf\<rparr>) st)
   \<and> (\<not> args_info a \<and> args_list_formats a \<longrightarrow>
      spawned (log (snd (main E a st))) =
        spawned (log st) @ version_cmd #
          (if fst (check_yt_dlp_installed E st) = Inr True
              \<and> validate_youtube_url (isalnum E) (args_url a)
           then [formats_cmd (args_url a)] else [])
      \<and> main E a st = main E (a\<lparr>args_output := outp, args_format := fmt, args_audio := au\<rparr>) st)"
proof -
  obtain r st1 where c: "check_yt_dlp_installed E st = (r, st1)"
    by (cases "check_yt_dlp_installed E st")
  then have s1: "spawned (log st1) = spawned (log st) @ [version_cmd]"
    using spawned_check [of E st] by simp
  have body: "spawned (log (snd (case main_body E a st1 of
                 (Inl e, st2) \<Rightarrow> main_handler e st2 | (Inr u, st2) \<Rightarrow> (Inr (), st2))))
              = spawned (log (snd (main_body E a st1)))"
    by (auto simp: spawned_main_handler split: prod.splits sum.splits)
  have A: "spawned (log (snd (main E a st))) =
        spawned (log st) @ version_cmd #
          (if fst (check_yt_dlp_installed E st) = Inr True
              \<and> validate_youtube_url (isalnum E) (args_url a)
           then [info_cmd (args_url a)] else [])" if "args_info a"
    using c s1 body spawned_main_body_info [OF that, of E st1]
    by (cases r) (auto simp: main_def spawned_say)
  have B: "spawned (log (snd (main E a st))) =
        spawned (log st) @ version_cmd #
          (if fst (check_yt_dlp_installed E st) = Inr True
              \<and> validate_youtube_url (isalnum E) (args_url a)
           then [formats_cmd (args_url a)] else [])" if "\<not> args_info a" "args_list_formats a"
    using c s1 body spawned_main_body_formats [OF that, of E st1]
    by (cases r) (auto simp: main_def spawned_say)
  have C: "main E a st = main E (a\<lparr>args_list_formats := lf\<rparr>) st" if "args_info a"
  proof -
    have "main_body E (a\<lparr>args_list_formats := lf\<rparr>) s = main_body E a s" for s
      using that by (simp add: main_body_def)
    then show ?thesis
      by (simp add: main_def split: prod.splits sum.splits)
  qed
  have D: "main E a st = main E (a\<lparr>args_output := outp, args_format := fmt, args_audio := au\<rparr>) st"
    if "\<not> args_info a" "args_list_formats a"
  proof -
    have "main_body E (a\<lparr>args_output := outp, args_format := fmt, args_audio := au\<rparr>) s
            = main_body E a s" for s
      using that by (simp add: main_body_def)
    then show ?thesis
      by (simp add: main_def split: prod.splits sum.splits)
  qed
  show ?thesis using A B C D by blast
qed

theorem flag_precedence_witness:
  "args_info both_args \<and> args_list_formats both_args
   \<and> main env_full both_args st0 =
       (Inr (),
        \<lparr>log = [Spawn version_cmd,
                Print [T (0x2705 # str '' yt-dlp version: ''), Stripped (str ''2025.01.15'')],
                Spawn (info_cmd sample_url),
                Print [T (str ''[*] Video Title: ''), V (PStr (str ''Demo''))],
                Print [T (str ''[*] Duration: ''), V (PInt 212), T (str '' seconds'')],
                Print [T (str ''[*] Uploader: ''), V (PStr (str ''Someone''))],
                Print [T (str ''[*] View Count: ''), Grouped (PInt 1234567)],
                Print [T (str ''[*] Upload Date: ''), V (PStr (str ''20091025''))]],
         files = Map.empty\<rparr>)
   \<and> spawned (log (snd (main env_full both_args st0))) = [version_cmd, info_cmd sample_url]
   \<and> main env_full both_args st0 = main env_full (both_args\<lparr>args_list_formats := False\<rparr>) st0
   \<and> spawned (log (snd (main env_working formats_args st0))) = [version_cmd, formats_cmd sample_url]"
proof -
  have valid: "validate_youtube_url ascii_alnum sample_url"
    by (simp add: validate_defs sample_url_def)
  have flags: "args_info both_args \<and> args_list_formats both_args
      \<and> \<not> args_info formats_args \<and> args_list_formats formats_args"
    by (simp add: both_args_def formats_args_def)
  have ready: "fst (check_yt_dlp_installed env_full st0) = Inr True
      \<and> validate_youtube_url (isalnum env_full) (args_url both_args)"
    using valid
    by (simp add: check_yt_dlp_installed_def subprocess_run_def say_def env_full_def st0_def
        both_args_def)
  have ready': "fst (check_yt_dlp_installed env_working st0) = Inr True
      \<and> validate_youtube_url (isalnum env_working) (args_url formats_args)"
    using valid
    by (simp add: check_yt_dlp_installed_def subprocess_run_def say_def env_working_def st0_def
        formats_args_def)
  have run: "main env_full both_args st0 =
       (Inr (),
        \<lparr>log = [Spawn version_cmd,
                Print [T (0x2705 # str '' yt-dlp version: ''), Stripped (str ''2025.01.15'')],
                Spawn (info_cmd sample_url),
                Print [T (str ''[*] Video Title: ''), V (PStr (str ''Demo''))],
                Print [T (str ''[*] Duration: ''), V (PInt 212), T (str '' seconds'')],
                Print [T (str ''[*] Uploader: ''), V (PStr (str ''Someone''))],
                Print [T (str ''[*] View Count: ''), Grouped (PInt 1234567)],
                Print [T (str ''[*] Upload Date: ''), V (PStr (str ''20091025''))]],
         files = Map.empty\<rparr>)"
    using valid
    by (simp add: main_def main_body_def check_yt_dlp_installed_def get_video_info_def
        subprocess_run_def loads_def say_def show_info_def info_get_def
        env_full_def full_info_def both_args_def st0_def info_cmd_def version_cmd_def)
  have "spawned (log st0) = []" "args_url both_args = sample_url" "args_url formats_args = sample_url"
    by (simp_all add: st0_def both_args_def formats_args_def)
  with flags ready ready' run
    flag_precedence [of both_args env_full st0 False]
    flag_precedence [of formats_args env_working st0]
  show ?thesis
    by simp
qed

text \<open>
  C4 (as amended). With \<open>audio_only\<close> the argument list has the audio-extraction flag, the
  \<open>mp3\<close> target encoding and the audio selector, and it is the same list whatever the
  format expression: the expression is not used, so it occurs in the list only when it
  equals one of the arguments that are there anyway.
\<close>

theorem download_cmd_audio:
  "download_cmd url outp fmt True =
     [str ''yt-dlp'', str ''--output'', outp @ str ''/%(title)s.%(ext)s'', str ''--no-playlist'',
      str ''--progress'', str ''--extract-audio'', str ''--audio-format'', str ''mp3'',
      str ''--format'', str ''bestaudio[ext=m4a]/bestaudio[ext=mp3]/bestaudio'', url]
   \<and> download_cmd url outp fmt True = download_cmd url outp fmt' True
   \<and> (fmt \<in> set (download_cmd url outp fmt True) \<longrightarrow>
        fmt \<in> {str ''yt-dlp'', str ''--output'', outp @ str ''/%(title)s.%(ext)s'',
               str ''--no-playlist'', str ''--progress'', str ''--extract-audio'',
               str ''--audio-format'', str ''mp3'', str ''--format'',
               str ''bestaudio[ext=m4a]/bestaudio[ext=mp3]/bestaudio'', url})"
  by (simp add: download_cmd_def del: list.map)

theorem download_cmd_audio_witness:
  "str ''--extract-audio'' \<in> set (download_cmd sample_url (str ''downloads'') (str ''best'') True)
   \<and> str ''best'' \<notin> set (download_cmd sample_url (str ''downloads'') (str ''best'') True)
   \<and> download_cmd sample_url (str ''downloads'') (str ''best'') True
       = download_cmd sample_url (str ''downloads'') (str ''worst'') True"
proof -
  let ?c = "download_cmd sample_url (str ''downloads'') (str ''best'') True"
  note t = download_cmd_audio [of sample_url "str ''downloads''" "str ''best''" "str ''worst''"]
  from t have eq: "?c =
     [str ''yt-dlp'', str ''--output'', str ''downloads'' @ str ''/%(title)s.%(ext)s'',
      str ''--no-playlist'', str ''--progress'', str ''--extract-audio'', str ''--audio-format'',
      str ''mp3'', str ''--format'', str ''bestaudio[ext=m4a]/bestaudio[ext=mp3]/bestaudio'',
      sample_url]"
    by blast
  from t have same: "?c = download_cmd sample_url (str ''downloads'') (str ''worst'') True"
    by blast
  have "str ''--extract-audio'' \<in> set ?c"
    unfolding eq by simp
  moreover have "str ''best'' \<notin> set ?c"
    unfolding eq by (simp add: sample_url_def)
  ultimately show ?thesis
    using same by blast
qed

text \<open>
  C4 as stated fails for a format expression that equals one of the fixed arguments:
  with \<open>--audio -f mp3\<close> the text \<open>mp3\<close> is in the argument list.
\<close>

theorem download_cmd_audio_counterexample:
  "str ''mp3'' \<in> set (download_cmd sample_url (str ''downloads'') (str ''mp3'') True)"
  by (simp add: download_cmd_def)

section \<open>Where the code departs from its description\<close>

text \<open>
  C1. The \<open>--info\<close> path on a metadata object without \<open>view_count\<close>: the default
  \<open>'Unknown'\<close> is a \<open>str\<close>, the format specification \<open>:,\<close> does not accept it, and the
  view-count line raises \<open>ValueError\<close> instead of printing the placeholder. The first
  three lines are printed, the upload-date line is never reached, the handler of \<open>main\<close>
  prints the error and the process exits with status 1.
\<close>

theorem info_missing_view_count:
  "main env_title_only info_args st0 =
     (Inl (SystemExit 1),
      \<lparr>log = [Spawn version_cmd,
              Print [T (0x2705 # str '' yt-dlp version: ''), Stripped (str ''2025.01.15'')],
              Spawn (info_cmd sample_url),
              Print [T (str ''[*] Video Title: ''), V (PStr (str ''Demo''))],
              Print [T (str ''[*] Duration: ''), V (PStr (str ''Unknown'')), T (str '' seconds'')],
              Print [T (str ''[*] Uploader: ''), V (PStr (str ''Unknown''))],
              Print [T (str ''[!] Error: ''), Exc ValueError]],
       files = Map.empty\<rparr>)
   \<and> exit_status (fst (main env_title_only info_args st0)) = 1"
proof -
  have valid: "validate_youtube_url ascii_alnum sample_url"
    by (simp add: validate_defs sample_url_def)
  have "main env_title_only info_args st0 =
     (Inl (SystemExit 1),
      \<lparr>log = [Spawn version_cmd,
              Print [T (0x2705 # str '' yt-dlp version: ''), Stripped (str ''2025.01.15'')],
              Spawn (info_cmd sample_url),
              Print [T (str ''[*] Video Title: ''), V (PStr (str ''Demo''))],
              Print [T (str ''[*] Duration: ''), V (PStr (str ''Unknown'')), T (str '' seconds'')],
              Print [T (str ''[*] Uploader: ''), V (PStr (str ''Unknown''))],
              Print [T (str ''[!] Error: ''), Exc ValueError]],
       files = Map.empty\<rparr>)"
    using valid
    by (simp add: main_def main_body_def main_handler_def check_yt_dlp_installed_def
        get_video_info_def subprocess_run_def loads_def say_def show_info_def info_get_def
        env_title_only_def title_only_def info_args_def st0_def info_cmd_def version_cmd_def)
  then show ?thesis by simp
qed

lemma show_info_without_view_count:
  "map_of kvs (str ''view_count'') = None \<Longrightarrow> fst (show_info (PDict kvs) st) = Inl ValueError"
  by (simp add: show_info_def info_get_def)

text \<open>
  C2. A failed metadata query under \<open>--info\<close>: the tool exits with status 1, or answers
  with text that is not JSON; \<open>get_video_info\<close> prints its diagnostic and returns \<open>None\<close>,
  and \<open>main\<close> returns normally, so the process ends with status 0. The same failure under
  \<open>--list-formats\<close> ends with status 1.
\<close>

theorem info_failure_exit_status:
  "main env_failing info_args st0 =
     (Inr (),
      \<lparr>log = [Spawn version_cmd,
              Print [T (0x2705 # str '' yt-dlp version: ''), Stripped (str ''2025.01.15'')],
              Spawn (info_cmd sample_url),
              Print [T (str ''[!] Error getting video info: ''),
                     V (PStr (str ''ERROR: Video unavailable''))]],
       files = Map.empty\<rparr>)
   \<and> exit_status (fst (main env_failing info_args st0)) = 0
   \<and> main env_garbled info_args st0 =
     (Inr (),
      \<lparr>log = [Spawn version_cmd,
              Print [T (0x2705 # str '' yt-dlp version: ''), Stripped (str ''2025.01.15'')],
              Spawn (info_cmd sample_url),
              Print [T (str ''[!] Error parsing video information'')]],
       files = Map.empty\<rparr>)
   \<and> exit_status (fst (main env_garbled info_args st0)) = 0
   \<and> exit_status (fst (main env_failing formats_args st0)) = 1"
proof -
  have valid: "validate_youtube_url ascii_alnum sample_url"
    by (simp add: validate_defs sample_url_def)
  have a: "main env_failing info_args st0 =
     (Inr (),
      \<lparr>log = [Spawn version_cmd,
              Print [T (0x2705 # str '' yt-dlp version: ''), Stripped (str ''2025.01.15'')],
              Spawn (info_cmd sample_url),
              Print [T (str ''[!] Error getting video info: ''),
                     V (PStr (str ''ERROR: Video unavailable''))]],
       files = Map.empty\<rparr>)"
    using valid
    by (simp add: main_def main_body_def check_yt_dlp_installed_def
        get_video_info_def subprocess_run_def say_def
        env_failing_def info_args_def st0_def info_cmd_def version_cmd_def)
  have b: "main env_garbled info_args st0 =
     (Inr (),
      \<lparr>log = [Spawn version_cmd,
              Print [T (0x2705 # str '' yt-dlp version: ''), Stripped (str ''2025.01.15'')],
              Spawn (info_cmd sample_url),
              Print [T (str ''[!] Error parsing video information'')]],
       files = Map.empty\<rparr>)"
    using valid
    by (simp add: main_def main_body_def check_yt_dlp_installed_def
        get_video_info_def subprocess_run_def loads_def say_def
        env_garbled_def info_args_def st0_def info_cmd_def version_cmd_def)
  have c: "exit_status (fst (main env_failing formats_args st0)) = 1"
    using valid
    by (simp add: main_def main_body_def main_handler_def check_yt_dlp_installed_def
        list_formats_def subprocess_run_def say_def
        env_failing_def formats_args_def st0_def formats_cmd_def version_cmd_def)
  show ?thesis using a b c by simp
qed

end
